theory Spec2Isabelle
  imports Complex_Main "HOL-Library.Word" "HOL-Library.Multiset"
begin

section \<open>Python values, exceptions and results\<close>

text \<open>
  The exceptions the modelled code can meet. \<open>KeyboardInterrupt\<close> and \<open>SystemExit\<close>
  derive from \<open>BaseException\<close> only, so a clause \<open>except Exception\<close> lets them pass.
\<close>

datatype exn =
    AttributeError | TypeError | IndexError | KeyError | ValueError | OverflowError
  | OSError | RuntimeError | KeyboardInterrupt | SystemExit

fun is_Exception :: "exn \<Rightarrow> bool" where
  "is_Exception KeyboardInterrupt = False"
| "is_Exception SystemExit = False"
| "is_Exception _ = True"

text \<open>
  The Python values that occur in inference outputs and detection records, all of them
  built-in objects: \<open>None\<close>, booleans, integers, finite floats (a float is a double and
  stands for the rational it denotes), lists and dictionaries with string keys
  (association lists; \<open>map_of\<close> is the lookup). Objects of other libraries, such as NumPy
  scalars, bring their own comparison and conversion methods and are not in this universe.
\<close>

datatype pyval =
    PNone
  | PBool bool
  | PInt int
  | PFloat rat
  | PList "pyval list"
  | PDict "(string \<times> pyval) list"

text \<open>The numeric value of a number; \<open>bool\<close> is a subclass of \<open>int\<close> in Python.\<close>

fun num_val :: "pyval \<Rightarrow> rat option" where
  "num_val (PBool b) = Some (if b then 1 else 0)"
| "num_val (PInt n) = Some (of_int n)"
| "num_val (PFloat r) = Some r"
| "num_val _ = None"

text \<open>\<open>d.get(k)\<close>: only dictionaries have the method; a missing key gives \<open>None\<close>.\<close>

fun py_get :: "pyval \<Rightarrow> string \<Rightarrow> exn + pyval" where
  "py_get (PDict kv) k = Inr (case map_of kv k of None \<Rightarrow> PNone | Some v \<Rightarrow> v)"
| "py_get _ k = Inl AttributeError"

text \<open>\<open>v in xs\<close> for a list \<open>xs\<close> of integers: some element compares equal to \<open>v\<close>.\<close>

definition py_in :: "pyval \<Rightarrow> int list \<Rightarrow> bool" where
  "py_in v xs = list_ex (\<lambda>k. num_val v = Some (of_int k)) xs"

text \<open>\<open>xs[i]\<close> for an index produced by \<open>range\<close> (never negative).\<close>

definition py_index :: "'a list \<Rightarrow> nat \<Rightarrow> exn + 'a" where
  "py_index xs i = (if i < length xs then Inr (xs ! i) else Inl IndexError)"

text \<open>
  \<open>v >= t\<close> for a float \<open>t\<close>. Python compares a built-in number with a float by value,
  exactly, also when the number is an integer.
\<close>

definition py_ge :: "pyval \<Rightarrow> rat \<Rightarrow> exn + bool" where
  "py_ge v t = (case num_val v of None \<Rightarrow> Inl TypeError | Some r \<Rightarrow> Inr (t \<le> r))"

text \<open>\<open>int(v)\<close> truncates a float towards zero.\<close>

definition trunc :: "rat \<Rightarrow> int" where
  "trunc r = (if 0 \<le> r then \<lfloor>r\<rfloor> else \<lceil>r\<rceil>)"

fun py_int :: "pyval \<Rightarrow> exn + int" where
  "py_int (PBool b) = Inr (if b then 1 else 0)"
| "py_int (PInt n) = Inr n"
| "py_int (PFloat r) = Inr (trunc r)"
| "py_int _ = Inl TypeError"

text \<open>
  \<open>float(n)\<close> for an integer \<open>n\<close>: the nearest double, a tie going to the even
  mantissa, and \<open>OverflowError\<close> when that would exceed the largest double. A double has
  a mantissa of 53 bits and the largest one is \<open>2^1024 - 2^971\<close>.
\<close>

fun bit_length :: "nat \<Rightarrow> nat" where
  "bit_length n = (if n = 0 then 0 else Suc (bit_length (n div 2)))"

declare bit_length.simps [simp del]

text \<open>\<open>m / 2^e\<close> rounded to the nearest integer, a tie going to the even one.\<close>

definition round_shift :: "nat \<Rightarrow> nat \<Rightarrow> nat" where
  "round_shift m e =
     (if e = 0 then m
      else let q = m div 2 ^ e; r = m mod 2 ^ e; half = 2 ^ (e - 1)
           in if half < r \<or> (r = half \<and> odd q) then q + 1 else q)"

definition int_to_double :: "int \<Rightarrow> exn + rat" where
  "int_to_double n =
     (let m = nat \<bar>n\<bar>; e = bit_length m - 53
      in if 2 ^ 1024 - 2 ^ 970 \<le> m then Inl OverflowError
         else Inr (of_int (sgn n * int (round_shift m e * 2 ^ e))))"

text \<open>\<open>float(v)\<close>: a float is returned as it is.\<close>

definition py_float :: "pyval \<Rightarrow> exn + rat" where
  "py_float v =
     (case v of
        PBool b \<Rightarrow> Inr (if b then 1 else 0)
      | PInt n \<Rightarrow> int_to_double n
      | PFloat r \<Rightarrow> Inr r
      | _ \<Rightarrow> Inl TypeError)"

text \<open>\<open>d.get(k, default)\<close> on a dictionary of arrays.\<close>

definition get_default :: "(string \<times> 'a) list \<Rightarrow> string \<Rightarrow> 'a \<Rightarrow> 'a" where
  "get_default d k dflt = (case map_of d k of None \<Rightarrow> dflt | Some v \<Rightarrow> v)"


section \<open>integration.py: DecisionEngine\<close>

definition DecisionEngine_init :: "int list option \<Rightarrow> int list" where
  "DecisionEngine_init obstacle_classes =
     (case obstacle_classes of Some cs \<Rightarrow> cs | None \<Rightarrow> [1, 2, 3])"

definition warning_message :: string where
  "warning_message = ''Warning: Obstacle ahead!''"

text \<open>
  \<open>any(detection.get('class') in self.obstacle_classes for detection in detection_results)\<close>:
  the generator is consumed from the left and stops at the first true element; an entry
  without \<open>get\<close> raises when it is reached.
\<close>

fun any_obstacle :: "int list \<Rightarrow> pyval list \<Rightarrow> exn + bool" where
  "any_obstacle obstacle_classes [] = Inr False"
| "any_obstacle obstacle_classes (detection # rest) =
     (case py_get detection ''class'' of
        Inl e \<Rightarrow> Inl e
      | Inr c \<Rightarrow> if py_in c obstacle_classes then Inr True
                 else any_obstacle obstacle_classes rest)"

definition process_inputs :: "int list \<Rightarrow> string \<Rightarrow> pyval list \<Rightarrow> exn + string" where
  "process_inputs obstacle_classes audio_text detection_results =
     (case any_obstacle obstacle_classes detection_results of
        Inr obstacle_detected \<Rightarrow>
          if obstacle_detected then Inr warning_message else Inr ''''
      | Inl e \<Rightarrow> if is_Exception e then Inr '''' else Inl e)"

text \<open>Vocabulary for the statements about \<open>process_inputs\<close>.\<close>

fun is_record :: "pyval \<Rightarrow> bool" where
  "is_record (PDict kv) = True"
| "is_record _ = False"

text \<open>A well-formed detection is a record whose \<open>'class'\<close> is an integer.\<close>

fun class_id :: "pyval \<Rightarrow> int option" where
  "class_id (PDict kv) = (case map_of kv ''class'' of Some (PInt c) \<Rightarrow> Some c | _ \<Rightarrow> None)"
| "class_id _ = None"

definition well_formed :: "pyval \<Rightarrow> bool" where
  "well_formed d = (class_id d \<noteq> None)"

text \<open>
  A malformed entry is not a record, or has no \<open>'class'\<close> key, or has a \<open>'class'\<close> that is
  not a number.
\<close>

fun malformed :: "pyval \<Rightarrow> bool" where
  "malformed (PDict kv) = (case map_of kv ''class'' of None \<Rightarrow> True | Some v \<Rightarrow> num_val v = None)"
| "malformed _ = True"

text \<open>An entry matches when the membership test of the source is true for it.\<close>

definition matches :: "int list \<Rightarrow> pyval \<Rightarrow> bool" where
  "matches obstacle_classes d =
     (case py_get d ''class'' of Inl e \<Rightarrow> False | Inr c \<Rightarrow> py_in c obstacle_classes)"


section \<open>External collaborators and call traces\<close>

text \<open>
  The microphone stream, the recogniser, the speech engine, the camera, the frame
  preprocessing (OpenCV and NumPy) and the inference runtime are external. Each of their
  calls is recorded as an event, and what the call did (returned a value or raised) is
  read from an environment, one per loop iteration; every statement below holds for all
  environments. Logging is not modelled.
\<close>

type_synonym bytes = "8 word list"

datatype frame = Frame nat

datatype tensor = Tensor nat

datatype event =
    Ev_stream_read
  | Ev_AcceptWaveform bytes
  | Ev_Result
  | Ev_speak string
  | Ev_say string
  | Ev_runAndWait
  | Ev_cap_read
  | Ev_preprocess frame
  | Ev_run_inference tensor
  | Ev_sleep rat
  | Ev_audio_close
  | Ev_stop_stream
  | Ev_stream_close
  | Ev_terminate
  | Ev_vision_close
  | Ev_release

text \<open>
  \<open>Result_json\<close> is \<open>json.loads(self.recognizer.Result())\<close>; \<open>preprocess\<close> is the body of
  \<open>preprocess_frame\<close> (unpacking the input shape, \<open>cv2.resize\<close>, scaling, \<open>expand_dims\<close>);
  \<open>run_inference\<close> gives the dictionary of output arrays.
\<close>

record iter_env =
  stream_read :: "exn + bytes"
  AcceptWaveform :: "bytes \<Rightarrow> exn + bool"
  Result_json :: "exn + (string \<times> string) list"
  engine_say :: "string \<Rightarrow> exn + unit"
  engine_runAndWait :: "exn + unit"
  cap_read :: "exn + bool \<times> frame option"
  preprocess :: "frame \<Rightarrow> exn + tensor"
  run_inference :: "tensor \<Rightarrow> exn + (string \<times> pyval list) list"
  sleep :: "rat \<Rightarrow> exn + unit"

record close_env =
  stop_stream :: "exn + unit"
  stream_close :: "exn + unit"
  terminate :: "exn + unit"
  release :: "exn + unit"

text \<open>A computation gives a result (returned value or raised exception) and its events.\<close>

type_synonym 'a res = "(exn + 'a) \<times> event list"

definition ret :: "'a \<Rightarrow> 'a res" where
  "ret v = (Inr v, [])"

definition raise :: "exn \<Rightarrow> 'a res" where
  "raise e = (Inl e, [])"

definition pure_result :: "exn + 'a \<Rightarrow> 'a res" where
  "pure_result r = (r, [])"

definition call :: "event \<Rightarrow> exn + 'a \<Rightarrow> 'a res" where
  "call ev r = (r, [ev])"

text \<open>Sequencing: an exception of the first part skips the second.\<close>

definition then_do :: "'a res \<Rightarrow> ('a \<Rightarrow> 'b res) \<Rightarrow> 'b res" where
  "then_do m f =
     (case m of
        (Inl e, tr) \<Rightarrow> (Inl e, tr)
      | (Inr v, tr) \<Rightarrow> (case f v of (r, tr') \<Rightarrow> (r, tr @ tr')))"

text \<open>\<open>try: m except Exception as e: h e\<close>.\<close>

definition try_except :: "'a res \<Rightarrow> (exn \<Rightarrow> 'a res) \<Rightarrow> 'a res" where
  "try_except m h =
     (case m of
        (Inl e, tr) \<Rightarrow>
          if is_Exception e then (case h e of (r, tr') \<Rightarrow> (r, tr @ tr')) else (Inl e, tr)
      | (Inr v, tr) \<Rightarrow> (Inr v, tr))"


section \<open>audio.py: AudioProcessor\<close>

definition capture_audio :: "iter_env \<Rightarrow> bytes res" where
  "capture_audio env = try_except (call Ev_stream_read (stream_read env)) (\<lambda>e. ret [])"

definition process_stt :: "iter_env \<Rightarrow> bytes \<Rightarrow> string res" where
  "process_stt env audio_data =
     (if audio_data = [] then ret ''''
      else try_except
        (then_do (call (Ev_AcceptWaveform audio_data) (AcceptWaveform env audio_data))
           (\<lambda>final.
              if final then
                then_do (call Ev_Result (Result_json env))
                  (\<lambda>result. ret (get_default result ''text'' ''''))
              else ret ''''))
        (\<lambda>e. ret ''''))"

definition speak :: "iter_env \<Rightarrow> string \<Rightarrow> unit res" where
  "speak env text =
     then_do (call (Ev_speak text) (Inr ()))
       (\<lambda>_. if text = [] then ret ()
            else try_except
              (then_do (call (Ev_say text) (engine_say env text))
                 (\<lambda>_. call Ev_runAndWait (engine_runAndWait env)))
              (\<lambda>e. ret ()))"

text \<open>
  \<open>close\<close> after a successful constructor: \<open>self.stream\<close> and \<open>self.pyaudio_instance\<close> are
  not \<open>None\<close>.
\<close>

definition audio_close :: "close_env \<Rightarrow> unit res" where
  "audio_close c =
     then_do (call Ev_audio_close (Inr ()))
       (\<lambda>_. try_except
              (then_do (call Ev_stop_stream (stop_stream c))
                 (\<lambda>_. then_do (call Ev_stream_close (stream_close c))
                        (\<lambda>_. call Ev_terminate (terminate c))))
              (\<lambda>e. ret ()))"


section \<open>vision.py: VisionProcessor\<close>

text \<open>
  \<open>ret, frame = self.cap.read()\<close>; the debug line reads \<open>frame.shape\<close>, which raises when
  the device says success and gives no frame.
\<close>

definition capture_frame :: "iter_env \<Rightarrow> frame option res" where
  "capture_frame env =
     then_do (call Ev_cap_read (cap_read env))
       (\<lambda>(ok, frame).
          if \<not> ok then ret None
          else (case frame of None \<Rightarrow> raise AttributeError | Some f \<Rightarrow> ret (Some f)))"

definition preprocess_frame :: "iter_env \<Rightarrow> frame \<Rightarrow> tensor res" where
  "preprocess_frame env frame =
     try_except (call (Ev_preprocess frame) (preprocess env frame)) (\<lambda>e. raise e)"

text \<open>
  The loop \<open>for i in range(len(scores))\<close>, over the list of indices, with the list of
  detections built so far.
\<close>

fun detect_loop ::
  "pyval list \<Rightarrow> pyval list \<Rightarrow> pyval list \<Rightarrow> rat \<Rightarrow> nat list \<Rightarrow> pyval list \<Rightarrow> exn + pyval list"
where
  "detect_loop boxes classes scores score_threshold [] detections = Inr detections"
| "detect_loop boxes classes scores score_threshold (i # rest) detections =
     (case py_index scores i of Inl e \<Rightarrow> Inl e | Inr s \<Rightarrow>
      (case py_ge s score_threshold of Inl e \<Rightarrow> Inl e
       | Inr False \<Rightarrow> detect_loop boxes classes scores score_threshold rest detections
       | Inr True \<Rightarrow>
         (case py_index boxes i of Inl e \<Rightarrow> Inl e | Inr b \<Rightarrow>
          (case py_index classes i of Inl e \<Rightarrow> Inl e | Inr c \<Rightarrow>
           (case py_int c of Inl e \<Rightarrow> Inl e | Inr ci \<Rightarrow>
            (case py_float s of Inl e \<Rightarrow> Inl e | Inr sf \<Rightarrow>
               detect_loop boxes classes scores score_threshold rest
                 (detections @
                    [PDict [(''box'', b), (''class'', PInt ci), (''score'', PFloat sf)]])))))))"

definition detect_objects :: "iter_env \<Rightarrow> frame \<Rightarrow> rat \<Rightarrow> pyval list res" where
  "detect_objects env frame score_threshold =
     try_except
       (then_do (preprocess_frame env frame)
          (\<lambda>input_tensor.
             then_do (call (Ev_run_inference input_tensor) (run_inference env input_tensor))
               (\<lambda>outputs.
                  let boxes = get_default outputs ''detection_boxes'' [];
                      classes = get_default outputs ''detection_classes'' [];
                      scores = get_default outputs ''detection_scores'' []
                  in pure_result
                       (detect_loop boxes classes scores score_threshold
                          [0..<length scores] []))))
       (\<lambda>e. ret [])"

definition default_score_threshold :: rat where
  "default_score_threshold = 1 / 2"

definition vision_close :: "close_env \<Rightarrow> unit res" where
  "vision_close c = then_do (call Ev_vision_close (Inr ())) (\<lambda>_. call Ev_release (release c))"


section \<open>main.py: the loop\<close>

definition main_obstacle_classes :: "int list" where
  "main_obstacle_classes = DecisionEngine_init (Some [1, 2, 3])"

text \<open>
  One pass through the body of \<open>while True\<close>. Both \<open>continue\<close> and reaching the end of the
  body return normally; an exception leaves the loop.
\<close>

definition iteration :: "iter_env \<Rightarrow> unit res" where
  "iteration env =
     then_do (capture_audio env) (\<lambda>audio_data.
     then_do (process_stt env audio_data) (\<lambda>recognized_text.
     then_do (capture_frame env) (\<lambda>frame.
       case frame of
         None \<Rightarrow> ret ()
       | Some f \<Rightarrow>
           then_do (detect_objects env f default_score_threshold) (\<lambda>detections.
           then_do (pure_result (process_inputs main_obstacle_classes recognized_text detections))
             (\<lambda>message.
           then_do (if message \<noteq> [] then speak env message else ret ()) (\<lambda>_.
           call (Ev_sleep (1 / 10)) (sleep env (1 / 10))))))))"

text \<open>
  \<open>while True\<close> over the environments of the successive iterations. The loop ends only by
  an exception (\<open>Some e\<close>); when the environments are used up it is still running (\<open>None\<close>).
\<close>

fun while_true :: "iter_env list \<Rightarrow> exn option \<times> event list" where
  "while_true [] = (None, [])"
| "while_true (env # envs) =
     (case iteration env of
        (Inl e, tr) \<Rightarrow> (Some e, tr)
      | (Inr _, tr) \<Rightarrow> (case while_true envs of (r, tr') \<Rightarrow> (r, tr @ tr')))"

datatype main_status = StillRunning | Returned | Unwound exn

definition main_finally :: "close_env \<Rightarrow> unit res" where
  "main_finally c = then_do (audio_close c) (\<lambda>_. vision_close c)"

text \<open>
  \<open>main\<close> after the three constructors succeeded. \<open>KeyboardInterrupt\<close> and every
  \<open>Exception\<close> are handled (logged), anything else stays pending; the \<open>finally\<close> block runs
  in each case, and an exception raised there replaces the pending one.
\<close>

definition main :: "iter_env list \<Rightarrow> close_env \<Rightarrow> main_status \<times> event list" where
  "main envs c =
     (case while_true envs of
        (None, tr) \<Rightarrow> (StillRunning, tr)
      | (Some e, tr) \<Rightarrow>
          (case main_finally c of
             (Inr _, tr') \<Rightarrow>
               (if e = KeyboardInterrupt \<or> is_Exception e then Returned else Unwound e, tr @ tr')
           | (Inl e', tr') \<Rightarrow> (Unwound e', tr @ tr')))"


section \<open>Vocabulary for the statements about the gateways and the loop\<close>

text \<open>The detection record that \<open>detect_objects\<close> builds.\<close>

definition detection :: "pyval \<Rightarrow> int \<Rightarrow> rat \<Rightarrow> pyval" where
  "detection b c s = PDict [(''box'', b), (''class'', PInt c), (''score'', PFloat s)]"


text \<open>A call that an interrupt did not hit: it returned, or raised an \<open>Exception\<close>.\<close>

definition no_interrupt :: "exn + 'a \<Rightarrow> bool" where
  "no_interrupt r = (case r of Inl e \<Rightarrow> is_Exception e | Inr v \<Rightarrow> True)"

text \<open>
  The contract of the camera read: it returns a pair, with a frame whenever it says
  success.
\<close>

definition camera_contract :: "exn + bool \<times> frame option \<Rightarrow> bool" where
  "camera_contract r =
     (case r of Inl e \<Rightarrow> False | Inr (ok, frame) \<Rightarrow> if ok then frame \<noteq> None else True)"

text \<open>The arguments of the calls of \<open>speak\<close> in a trace, in order.\<close>

fun spoken :: "event list \<Rightarrow> string list" where
  "spoken [] = []"
| "spoken (Ev_speak text # tr) = text # spoken tr"
| "spoken (ev # tr) = spoken tr"



text \<open>
  A scripted iteration in which every collaborator succeeds: the recogniser finishes the
  utterance \<open>hello\<close>, the camera gives a frame, and inference reports one object of class 2
  with score 0.9. And a scripted shutdown in which every release succeeds.
\<close>

definition scripted_env :: iter_env where
  "scripted_env =
     \<lparr>stream_read = Inr [1, 2, 3, 4],
      AcceptWaveform = (\<lambda>d. Inr True),
      Result_json = Inr [(''text'', ''hello'')],
      engine_say = (\<lambda>t. Inr ()),
      engine_runAndWait = Inr (),
      cap_read = Inr (True, Some (Frame 0)),
      preprocess = (\<lambda>f. Inr (Tensor 0)),
      run_inference = (\<lambda>t. Inr
        [(''detection_boxes'', [PList [PFloat (1/10), PFloat (1/5), PFloat (1/2), PFloat (3/5)]]),
         (''detection_classes'', [PFloat 2]),
         (''detection_scores'', [PFloat (9/10)])]),
      sleep = (\<lambda>d. Inr ())\<rparr>"

definition scripted_close :: close_env where
  "scripted_close =
     \<lparr>stop_stream = Inr (), stream_close = Inr (), terminate = Inr (), release = Inr ()\<rparr>"




definition rounding_outputs :: "(string \<times> pyval list) list" where
  "rounding_outputs =
     [(''detection_boxes'', [PList [PFloat 0], PList [PFloat 1]]),
      (''detection_classes'', [PFloat 2, PInt 3]),
      (''detection_scores'', [PFloat (9/10), PInt 9007199254740993])]"

text \<open>
  An iteration in which nothing worse than a recoverable failure happens: no call is hit
  by an interrupt, the camera read keeps its contract, and the delay returns.
\<close>

definition recoverable_only :: "iter_env \<Rightarrow> bool" where
  "recoverable_only env =
     (no_interrupt (stream_read env)
      \<and> (\<forall>d. no_interrupt (AcceptWaveform env d))
      \<and> no_interrupt (Result_json env)
      \<and> camera_contract (cap_read env)
      \<and> (\<forall>f. no_interrupt (preprocess env f))
      \<and> (\<forall>t. no_interrupt (run_inference env t))
      \<and> (\<forall>t. no_interrupt (engine_say env t))
      \<and> no_interrupt (engine_runAndWait env)
      \<and> (\<forall>d. sleep env d = Inr ()))"


section \<open>Properties of the decision rule\<close>

lemma any_obstacle_records:
  "list_all is_record ds \<Longrightarrow> any_obstacle obs ds = Inr (list_ex (matches obs) ds)"
proof (induction ds)
  case Nil
  show ?case by simp
next
  case (Cons d ds)
  then obtain kv where "d = PDict kv" by (cases d) auto
  with Cons show ?case by (simp add: matches_def)
qed

lemma any_obstacle_no_match:
  "\<not> list_ex (matches obs) ds \<Longrightarrow> any_obstacle obs ds = Inr False \<or> any_obstacle obs ds = Inl AttributeError"
proof (induction ds)
  case Nil
  show ?case by simp
next
  case (Cons d ds)
  then show ?case by (cases d) (auto simp: matches_def)
qed

lemma any_obstacle_only_AttributeError:
  "any_obstacle obs ds = Inl e \<Longrightarrow> e = AttributeError"
proof (induction ds)
  case Nil
  then show ?case by simp
next
  case (Cons d ds)
  then show ?case by (cases d) (auto split: if_splits)
qed

lemma process_inputs_records:
  "list_all is_record ds \<Longrightarrow>
   process_inputs obs t ds = Inr (if list_ex (matches obs) ds then warning_message else '''')"
  by (simp add: process_inputs_def any_obstacle_records)

lemma process_inputs_no_match:
  "\<not> list_ex (matches obs) ds \<Longrightarrow> process_inputs obs t ds = Inr ''''"
  using any_obstacle_no_match [of obs ds] by (auto simp: process_inputs_def)

lemma well_formed_is_record: "well_formed d \<Longrightarrow> is_record d"
  by (cases d) (simp_all add: well_formed_def)

lemma well_formed_matches:
  "well_formed d \<Longrightarrow> matches obs d \<longleftrightarrow> (\<exists>c. class_id d = Some c \<and> c \<in> set obs)"
  by (cases d)
     (auto simp: well_formed_def matches_def py_in_def list_ex_iff
           split: option.splits pyval.splits)

text \<open>
  C1. For every recognised text and every well-formed detection list, \<open>process_inputs\<close>
  returns the fixed warning string if and only if some detection of the list has a class
  that is a member of the configured obstacle classes; otherwise it returns the empty
  string.
\<close>

theorem C1_process_inputs_iff:
  assumes "list_all well_formed ds"
  shows "process_inputs obs t ds =
           Inr (if \<exists>d\<in>set ds. \<exists>c. class_id d = Some c \<and> c \<in> set obs
                then ''Warning: Obstacle ahead!'' else '''')"
proof -
  have rec: "list_all is_record ds"
    using assms by (auto simp: list_all_iff intro: well_formed_is_record)
  have "list_ex (matches obs) ds \<longleftrightarrow> (\<exists>d\<in>set ds. \<exists>c. class_id d = Some c \<and> c \<in> set obs)"
    using assms by (auto simp: list_ex_iff list_all_iff well_formed_matches)
  then show ?thesis
    using process_inputs_records [OF rec, of obs t] by (simp add: warning_message_def)
qed

theorem C1_witness:
  "process_inputs [1, 2, 3] ''Proceed forward''
     [PDict [(''box'', PList []), (''class'', PInt 1), (''score'', PFloat (3/4))],
      PDict [(''box'', PList []), (''class'', PInt 5), (''score'', PFloat (13/20))]]
     = Inr ''Warning: Obstacle ahead!''
   \<and> process_inputs [1, 2, 3] ''Proceed forward''
     [PDict [(''box'', PList []), (''class'', PInt 5), (''score'', PFloat (13/20))]]
     = Inr ''''"
  using C1_process_inputs_iff [of
      "[PDict [(''box'', PList []), (''class'', PInt 1), (''score'', PFloat (3/4))],
        PDict [(''box'', PList []), (''class'', PInt 5), (''score'', PFloat (13/20))]]"
      "[1, 2, 3]" "''Proceed forward''"]
    C1_process_inputs_iff [of
      "[PDict [(''box'', PList []), (''class'', PInt 5), (''score'', PFloat (13/20))]]"
      "[1, 2, 3]" "''Proceed forward''"]
  by (simp add: well_formed_def)

text \<open>
  C2 (as stated). The result does not depend on the order of the detection list. This
  fails when the list holds an entry that is not a record: the fault raised at that entry
  is caught and gives the empty string, unless a matching record came before it.
\<close>

theorem C2_counterexample:
  "mset [PInt 5, PDict [(''class'', PInt 1)]] = mset [PDict [(''class'', PInt 1)], PInt 5]
   \<and> process_inputs [1, 2, 3] ''hello'' [PInt 5, PDict [(''class'', PInt 1)]]
       \<noteq> process_inputs [1, 2, 3] ''hello'' [PDict [(''class'', PInt 1)], PInt 5]"
  by (simp add: process_inputs_def py_in_def warning_message_def)

text \<open>
  C2 (amended). For every detection list whose entries are all records, or in which no
  entry matches, and every permutation of it, \<open>process_inputs\<close> gives the same result;
  and for every detection list the recognised text never changes the result.
\<close>

theorem C2_permutation_and_text:
  assumes "list_all is_record d \<or> \<not> list_ex (matches obs) d"
    and "mset d' = mset d"
  shows "process_inputs obs t d' = process_inputs obs t d
         \<and> process_inputs obs t1 ds = process_inputs obs t2 ds"
proof -
  have s: "set d' = set d" using assms(2) by (rule mset_eq_setD)
  have "process_inputs obs t d' = process_inputs obs t d"
    using assms(1)
  proof
    assume r: "list_all is_record d"
    then have r': "list_all is_record d'" using s by (simp add: list_all_iff)
    have "list_ex (matches obs) d' = list_ex (matches obs) d"
      using s by (simp add: list_ex_iff)
    then show ?thesis
      using process_inputs_records [OF r, of obs t] process_inputs_records [OF r', of obs t]
      by simp
  next
    assume n: "\<not> list_ex (matches obs) d"
    then have n': "\<not> list_ex (matches obs) d'" using s by (simp add: list_ex_iff)
    show ?thesis
      using process_inputs_no_match [OF n, of t] process_inputs_no_match [OF n', of t]
      by simp
  qed
  moreover have "process_inputs obs t1 ds = process_inputs obs t2 ds"
    by (simp add: process_inputs_def)
  ultimately show ?thesis by simp
qed

theorem C2_witness:
  "process_inputs [1, 2, 3] ''go''
      [PDict [(''class'', PInt 2)], PDict [(''score'', PFloat (1/2))], PDict [(''class'', PInt 7)]]
    = process_inputs [1, 2, 3] ''go''
      [PDict [(''class'', PInt 7)], PDict [(''class'', PInt 2)], PDict [(''score'', PFloat (1/2))]]
   \<and> process_inputs [1, 2, 3] ''go'' [PInt 5, PDict [(''class'', PInt 1)]]
    = process_inputs [1, 2, 3] ''stop'' [PInt 5, PDict [(''class'', PInt 1)]]"
  using C2_permutation_and_text [of
      "[PDict [(''class'', PInt 7)], PDict [(''class'', PInt 2)], PDict [(''score'', PFloat (1/2))]]"
      "[1, 2, 3]"
      "[PDict [(''class'', PInt 2)], PDict [(''score'', PFloat (1/2))], PDict [(''class'', PInt 7)]]"
      "''go''" "''go''" "[PInt 5, PDict [(''class'', PInt 1)]]" "''stop''"]
  by simp

lemma any_obstacle_append:
  "any_obstacle obs (xs @ ys) =
     (case any_obstacle obs xs of Inl e \<Rightarrow> Inl e
      | Inr True \<Rightarrow> Inr True
      | Inr False \<Rightarrow> any_obstacle obs ys)"
  by (induction xs) (auto split: sum.splits)

lemma process_inputs_returns: "\<exists>s. process_inputs obs t ds = Inr s"
proof (cases "any_obstacle obs ds")
  case (Inl e)
  then have "e = AttributeError" by (rule any_obstacle_only_AttributeError)
  with Inl show ?thesis by (simp add: process_inputs_def)
next
  case (Inr b)
  then show ?thesis by (simp add: process_inputs_def)
qed

lemma malformed_head:
  "malformed m \<Longrightarrow>
   any_obstacle obs (m # ys) = Inl AttributeError \<or> any_obstacle obs (m # ys) = any_obstacle obs ys"
  by (cases m) (auto simp: py_in_def list_ex_iff split: option.splits)

lemma malformed_record_head:
  "malformed m \<Longrightarrow> is_record m \<Longrightarrow> any_obstacle obs (m # ys) = any_obstacle obs ys"
  by (cases m) (auto simp: py_in_def list_ex_iff split: option.splits)

lemma malformed_no_match: "malformed m \<Longrightarrow> \<not> matches obs m"
  by (cases m) (auto simp: matches_def py_in_def list_ex_iff split: option.splits)

text \<open>
  C6. For every detection list, also one with malformed entries (an entry that is not a
  record, a record without the \<open>'class'\<close> key, a record whose \<open>'class'\<close> is not a number),
  \<open>process_inputs\<close> returns a string and raises nothing. A malformed entry never produces
  a warning by itself: a warning given with the entry in the list is also given without
  it, and a list of malformed entries only gives the empty string. A malformed record is
  skipped like any record that does not match: removing it leaves the result unchanged.
\<close>

theorem C6_malformed_entries:
  "(\<exists>s. process_inputs obs t ds = Inr s)
   \<and> (malformed m \<longrightarrow> process_inputs obs t (xs @ m # ys) = Inr warning_message
        \<longrightarrow> process_inputs obs t (xs @ ys) = Inr warning_message)
   \<and> (malformed m \<longrightarrow> is_record m
        \<longrightarrow> process_inputs obs t (xs @ m # ys) = process_inputs obs t (xs @ ys))
   \<and> (list_all malformed ds \<longrightarrow> process_inputs obs t ds = Inr '''')"
proof (intro conjI impI)
  show "\<exists>s. process_inputs obs t ds = Inr s" by (rule process_inputs_returns)
next
  assume m: "malformed m" and w: "process_inputs obs t (xs @ m # ys) = Inr warning_message"
  from malformed_head [OF m, of obs ys] w
  show "process_inputs obs t (xs @ ys) = Inr warning_message"
    by (auto simp: process_inputs_def any_obstacle_append [of obs xs] warning_message_def
             split: sum.splits bool.splits if_splits)
next
  assume "malformed m" and "is_record m"
  then have "any_obstacle obs (m # ys) = any_obstacle obs ys" by (rule malformed_record_head)
  then have "any_obstacle obs (xs @ m # ys) = any_obstacle obs (xs @ ys)"
    by (simp only: any_obstacle_append [of obs xs])
  then show "process_inputs obs t (xs @ m # ys) = process_inputs obs t (xs @ ys)"
    by (simp only: process_inputs_def)
next
  assume "list_all malformed ds"
  then have "\<not> list_ex (matches obs) ds"
    by (auto simp: list_all_iff list_ex_iff malformed_no_match)
  then show "process_inputs obs t ds = Inr ''''" by (rule process_inputs_no_match)
qed

theorem C6_witness:
  "process_inputs [1, 2, 3] ''hi'' [PDict [(''box'', PList []), (''score'', PFloat (9/10))]] = Inr ''''
   \<and> process_inputs [1, 2, 3] ''hi'' [PDict [(''score'', PFloat (9/10))], PDict [(''class'', PInt 2)]]
       = process_inputs [1, 2, 3] ''hi'' [PDict [(''class'', PInt 2)]]
   \<and> process_inputs [1, 2, 3] ''hi'' [PInt 5, PDict [(''class'', PList [])]] = Inr ''''"
  using C6_malformed_entries [of "[1, 2, 3]" "''hi''"
      "[PDict [(''box'', PList []), (''score'', PFloat (9/10))]]"
      "PDict [(''score'', PFloat (9/10))]" "[]" "[PDict [(''class'', PInt 2)]]"]
    C6_malformed_entries [of "[1, 2, 3]" "''hi''" "[PInt 5, PDict [(''class'', PList [])]]"
      "PInt 5" "[]" "[PDict [(''class'', PInt 2)]]"]
  by simp

section \<open>Properties of the audio gateway\<close>

text \<open>
  C7. \<open>process_stt\<close> applied to an empty audio chunk returns the empty string at once:
  its trace is empty, so the recogniser is not invoked (no \<open>AcceptWaveform\<close> call).
\<close>

theorem C7_empty_chunk:
  "process_stt env [] = (Inr '''', [])"
  by (simp add: process_stt_def ret_def)

theorem C7_witness:
  "process_stt scripted_env [] = (Inr '''', [])
   \<and> Ev_AcceptWaveform [] \<notin> set (snd (process_stt scripted_env []))
   \<and> process_stt scripted_env [7] = (Inr ''hello'', [Ev_AcceptWaveform [7], Ev_Result])"
  using C7_empty_chunk [of scripted_env]
  by (simp add: process_stt_def scripted_env_def try_except_def then_do_def call_def ret_def
        get_default_def)


section \<open>Properties of object detection\<close>

lemma bit_length_numeral:
  "bit_length 0 = 0"
  "bit_length (Suc 0) = Suc 0"
  "bit_length (numeral k) = Suc (bit_length (numeral k div 2))"
proof -
  show z: "bit_length 0 = 0"
    by (simp add: bit_length.simps [of 0])
  show "bit_length (Suc 0) = Suc 0"
    by (simp add: bit_length.simps [of "Suc 0"] z)
  show "bit_length (numeral k) = Suc (bit_length (numeral k div 2))"
    by (simp add: bit_length.simps [of "numeral k"])
qed

lemma float_of_large_ints:
  "py_float (PInt (10 ^ 400)) = Inl OverflowError"
  "py_float (PInt 9007199254740993) = Inr 9007199254740992"
  by (simp_all add: py_float_def int_to_double_def Let_def bit_length_numeral round_shift_def)

text \<open>Integers below \<open>2^53\<close> in magnitude are converted exactly.\<close>

lemma bit_length_bound: "m < 2 ^ k \<Longrightarrow> bit_length m \<le> k"
proof (induction k arbitrary: m)
  case 0
  then show ?case by (simp add: bit_length_numeral)
next
  case (Suc k)
  show ?case
  proof (cases "m = 0")
    case True
    then show ?thesis by (simp add: bit_length_numeral)
  next
    case False
    have "m div 2 < 2 ^ k" using Suc.prems by simp
    then have "bit_length (m div 2) \<le> k" by (rule Suc.IH)
    with False show ?thesis by (simp add: bit_length.simps [of m])
  qed
qed

lemma int_to_double_exact:
  assumes "\<bar>n\<bar> < 2 ^ 53"
  shows "int_to_double n = Inr (of_int n)"
proof -
  have m: "nat \<bar>n\<bar> < 2 ^ 53" using assms by (simp add: nat_less_iff)
  then have b: "bit_length (nat \<bar>n\<bar>) - 53 = 0"
    using bit_length_bound [of "nat \<bar>n\<bar>" 53] by simp
  have "(2::nat) ^ 53 \<le> 2 ^ 1024 - 2 ^ 970" by simp
  with m have o: "\<not> (2::nat) ^ 1024 - 2 ^ 970 \<le> nat \<bar>n\<bar>" by linarith
  have "sgn n * int (nat \<bar>n\<bar>) = n" by (simp add: sgn_if)
  then show ?thesis
    using o b by (simp add: int_to_double_def Let_def round_shift_def del: of_nat_nat)
qed

lemma py_float_Exception: "py_float v = Inl e \<Longrightarrow> is_Exception e"
  by (cases v) (auto simp: py_float_def int_to_double_def Let_def split: if_splits)

lemma detect_loop_parallel:
  assumes "list_all2 (\<lambda>s r. num_val s = Some r) scores ss"
    and "list_all2 (\<lambda>s f. py_float s = Inr f) scores fs"
    and "list_all2 (\<lambda>c n. py_int c = Inr n) classes cs"
    and "length boxes = length ss" and "length cs = length ss"
    and "\<forall>i\<in>set idx. i < length ss"
  shows "detect_loop boxes classes scores thr idx acc =
           Inr (acc @ map (\<lambda>i. detection (boxes ! i) (cs ! i) (fs ! i))
                          (filter (\<lambda>i. thr \<le> ss ! i) idx))"
  using assms(6)
proof (induction idx arbitrary: acc)
  case Nil
  show ?case by simp
next
  case (Cons i idx)
  have i: "i < length ss" using Cons.prems by simp
  have ls: "length scores = length ss" using assms(1) by (rule list_all2_lengthD)
  have lf: "length scores = length fs" using assms(2) by (rule list_all2_lengthD)
  have lc: "length classes = length cs" using assms(3) by (rule list_all2_lengthD)
  have s: "num_val (scores ! i) = Some (ss ! i)"
    using assms(1) i ls by (simp add: list_all2_conv_all_nth)
  have f: "py_float (scores ! i) = Inr (fs ! i)"
    using assms(2) i ls lf by (simp add: list_all2_conv_all_nth)
  have c: "py_int (classes ! i) = Inr (cs ! i)"
    using assms(3) i lc assms(5) by (simp add: list_all2_conv_all_nth)
  have rest: "\<forall>j\<in>set idx. j < length ss" using Cons.prems by simp
  show ?case
    using i ls lc assms(4,5) s f c Cons.IH [OF rest]
    by (simp add: py_index_def py_ge_def detection_def)
qed

lemma detect_objects_parallel:
  assumes "preprocess env frame = Inr t"
    and "run_inference env t = Inr outputs"
    and "map_of outputs ''detection_boxes'' = Some boxes"
    and "map_of outputs ''detection_classes'' = Some classes"
    and "map_of outputs ''detection_scores'' = Some scores"
    and "list_all2 (\<lambda>s r. num_val s = Some r) scores ss"
    and "list_all2 (\<lambda>s f. py_float s = Inr f) scores fs"
    and "list_all2 (\<lambda>c n. py_int c = Inr n) classes cs"
    and "length boxes = length ss" and "length cs = length ss"
  shows "detect_objects env frame thr =
           (Inr (map (\<lambda>i. detection (boxes ! i) (cs ! i) (fs ! i))
                     (filter (\<lambda>i. thr \<le> ss ! i) [0..<length ss])),
            [Ev_preprocess frame, Ev_run_inference t])"
proof -
  have ls: "length scores = length ss" using assms(6) by (rule list_all2_lengthD)
  have "detect_loop boxes classes scores thr [0..<length scores] [] =
          Inr ([] @ map (\<lambda>i. detection (boxes ! i) (cs ! i) (fs ! i))
                     (filter (\<lambda>i. thr \<le> ss ! i) [0..<length scores]))"
    using assms(6-10) by (rule detect_loop_parallel) (simp add: ls)
  then show ?thesis
    using assms(1-5) ls
    by (simp add: detect_objects_def preprocess_frame_def try_except_def then_do_def
          call_def pure_result_def get_default_def)
qed





text \<open>
  C10. When preprocessing and inference return, the three output arrays are parallel and
  \<open>float\<close> and \<open>int\<close> succeed on every score and class, the returned detections appear in
  increasing index order of the output arrays, and the entry for index \<open>i\<close> takes its
  \<open>'box'\<close> from \<open>detection_boxes[i]\<close>, its \<open>'class'\<close> from \<open>int(detection_classes[i])\<close> and
  its \<open>'score'\<close> from \<open>float(detection_scores[i])\<close>.
\<close>

theorem C10_order_and_fields:
  assumes "preprocess env frame = Inr t"
    and "run_inference env t = Inr outputs"
    and "map_of outputs ''detection_boxes'' = Some boxes"
    and "map_of outputs ''detection_classes'' = Some classes"
    and "map_of outputs ''detection_scores'' = Some scores"
    and "list_all2 (\<lambda>s r. num_val s = Some r) scores ss"
    and "list_all2 (\<lambda>s f. py_float s = Inr f) scores fs"
    and "list_all2 (\<lambda>c n. py_int c = Inr n) classes cs"
    and "length boxes = length ss" and "length cs = length ss"
  shows "fst (detect_objects env frame thr) =
           Inr (map (\<lambda>i. PDict [(''box'', boxes ! i), (''class'', PInt (cs ! i)),
                                 (''score'', PFloat (fs ! i))])
                    (filter (\<lambda>i. thr \<le> ss ! i) [0..<length ss]))
         \<and> sorted_wrt (<) (filter (\<lambda>i. thr \<le> ss ! i) [0..<length ss])"
  using detect_objects_parallel [OF assms, of thr]
  by (simp add: detection_def sorted_wrt_filter)

lemma rounding_outputs_arrays:
  "map_of rounding_outputs ''detection_boxes'' = Some [PList [PFloat 0], PList [PFloat 1]]"
  "map_of rounding_outputs ''detection_classes'' = Some [PFloat 2, PInt 3]"
  "map_of rounding_outputs ''detection_scores'' = Some [PFloat (9/10), PInt 9007199254740993]"
  "list_all2 (\<lambda>s r. num_val s = Some r) [PFloat (9/10), PInt 9007199254740993]
     [9/10, 9007199254740993]"
  "list_all2 (\<lambda>s f. py_float s = Inr f) [PFloat (9/10), PInt 9007199254740993]
     [9/10, 9007199254740992]"
  "list_all2 (\<lambda>c n. py_int c = Inr n) [PFloat 2, PInt 3] [2, 3]"
  by (simp_all add: rounding_outputs_def trunc_def floor_eq_iff float_of_large_ints)
     (simp add: py_float_def)

theorem C10_witness:
  "fst (detect_objects (scripted_env\<lparr>run_inference := (\<lambda>t. Inr rounding_outputs)\<rparr>) (Frame 0) (1/2))
     = Inr [PDict [(''box'', PList [PFloat 0]), (''class'', PInt 2), (''score'', PFloat (9/10))],
            PDict [(''box'', PList [PFloat 1]), (''class'', PInt 3),
                   (''score'', PFloat 9007199254740992)]]"
proof -
  let ?env = "scripted_env\<lparr>run_inference := (\<lambda>t. Inr rounding_outputs)\<rparr>"
  have p: "preprocess ?env (Frame 0) = Inr (Tensor 0)"
    by (simp add: scripted_env_def)
  have r: "run_inference ?env (Tensor 0) = Inr rounding_outputs"
    by simp
  have l: "length [PList [PFloat 0], PList [PFloat 1]] = length [9/10, 9007199254740993 :: rat]"
    "length [2, 3 :: int] = length [9/10, 9007199254740993 :: rat]"
    by simp_all
  from C10_order_and_fields [OF p r rounding_outputs_arrays l, where thr = "1/2"]
  show ?thesis
    by simp
qed


section \<open>Results and traces of composed computations\<close>

lemma fst_then_do:
  "fst (then_do m f) = (case fst m of Inl e \<Rightarrow> Inl e | Inr v \<Rightarrow> fst (f v))"
  by (simp add: then_do_def split: prod.splits sum.splits)

lemma snd_then_do:
  "snd (then_do m f) = (case fst m of Inl e \<Rightarrow> snd m | Inr v \<Rightarrow> snd m @ snd (f v))"
  by (simp add: then_do_def split: prod.splits sum.splits)

lemma fst_try_except:
  "fst (try_except m h) =
     (case fst m of Inl e \<Rightarrow> if is_Exception e then fst (h e) else Inl e | Inr v \<Rightarrow> Inr v)"
  by (simp add: try_except_def split: prod.splits sum.splits)

lemma snd_try_except:
  "snd (try_except m h) =
     (case fst m of Inl e \<Rightarrow> if is_Exception e then snd m @ snd (h e) else snd m
      | Inr v \<Rightarrow> snd m)"
  by (simp add: try_except_def split: prod.splits sum.splits)

lemma res_simps:
  "fst (ret v) = Inr v" "snd (ret v) = []"
  "fst (raise e) = Inl e" "snd (raise e) = []"
  "fst (pure_result r) = r" "snd (pure_result r) = []"
  "fst (call ev r) = r" "snd (call ev r) = [ev]"
  by (simp_all add: ret_def raise_def pure_result_def call_def)


lemma try_except_all:
  "list_all P (snd m) \<Longrightarrow> (\<And>e. list_all P (snd (h e))) \<Longrightarrow> list_all P (snd (try_except m h))"
  by (simp add: snd_try_except split: sum.splits)


section \<open>Results and traces of the gateway operations\<close>

lemma fst_capture_audio:
  "fst (capture_audio env) =
     (case stream_read env of Inl e \<Rightarrow> if is_Exception e then Inr [] else Inl e
      | Inr d \<Rightarrow> Inr d)"
  by (simp add: capture_audio_def fst_try_except res_simps split: sum.splits)

lemma capture_audio_all:
  "P Ev_stream_read \<Longrightarrow> list_all P (snd (capture_audio env))"
  by (simp add: capture_audio_def snd_try_except res_simps split: sum.splits)

lemma fst_process_stt:
  "fst (process_stt env d) =
     (if d = [] then Inr ''''
      else case AcceptWaveform env d of
             Inl e \<Rightarrow> if is_Exception e then Inr '''' else Inl e
           | Inr final \<Rightarrow>
               if final then
                 (case Result_json env of
                    Inl e \<Rightarrow> if is_Exception e then Inr '''' else Inl e
                  | Inr j \<Rightarrow> Inr (get_default j ''text'' ''''))
               else Inr '''')"
  by (simp add: process_stt_def fst_try_except fst_then_do res_simps split: sum.splits)

lemma process_stt_all:
  "P (Ev_AcceptWaveform d) \<Longrightarrow> P Ev_Result \<Longrightarrow> list_all P (snd (process_stt env d))"
  by (simp add: process_stt_def snd_try_except snd_then_do fst_then_do res_simps
        split: sum.splits)

lemma fst_capture_frame:
  "fst (capture_frame env) =
     (case cap_read env of
        Inl e \<Rightarrow> Inl e
      | Inr (ok, frame) \<Rightarrow>
          if \<not> ok then Inr None
          else (case frame of None \<Rightarrow> Inl AttributeError | Some f \<Rightarrow> Inr (Some f)))"
  by (simp add: capture_frame_def fst_then_do res_simps split: sum.splits prod.splits option.splits)

lemma capture_frame_all:
  "P Ev_cap_read \<Longrightarrow> list_all P (snd (capture_frame env))"
  by (simp add: capture_frame_def snd_then_do res_simps split: sum.splits prod.splits option.splits)

lemma py_int_TypeError: "py_int c = Inl e \<Longrightarrow> e = TypeError"
  by (cases c) simp_all

lemma detect_loop_Exception:
  "detect_loop boxes classes scores thr idx acc = Inl e \<Longrightarrow> is_Exception e"
proof (induction idx arbitrary: acc)
  case Nil
  then show ?case by simp
next
  case (Cons i idx)
  then show ?case
    by (auto simp: py_index_def py_ge_def
             split: sum.splits bool.splits option.splits if_splits
             dest: py_int_TypeError py_float_Exception)
qed

lemma fst_detect_objects:
  "no_interrupt (preprocess env f) \<Longrightarrow> (\<And>t. no_interrupt (run_inference env t)) \<Longrightarrow>
   \<exists>ds. fst (detect_objects env f thr) = Inr ds"
proof -
  assume p: "no_interrupt (preprocess env f)" and r: "\<And>t. no_interrupt (run_inference env t)"
  show ?thesis
  proof (cases "preprocess env f")
    case (Inl e)
    with p show ?thesis
      by (simp add: detect_objects_def preprocess_frame_def fst_try_except fst_then_do
            res_simps no_interrupt_def)
  next
    case pre: (Inr t)
    show ?thesis
    proof (cases "run_inference env t")
      case (Inl e)
      with r [of t] pre show ?thesis
        by (simp add: detect_objects_def preprocess_frame_def fst_try_except fst_then_do
              res_simps no_interrupt_def)
    next
      case (Inr outputs)
      with pre show ?thesis
        by (auto simp: detect_objects_def preprocess_frame_def fst_try_except fst_then_do
              res_simps Let_def split: sum.splits dest: detect_loop_Exception)
    qed
  qed
qed

lemma detect_objects_failure:
  assumes "is_Exception e"
    and "preprocess env f = Inl e \<or> (preprocess env f = Inr t \<and> run_inference env t = Inl e)"
  shows "fst (detect_objects env f thr) = Inr []"
  using assms
  by (auto simp: detect_objects_def preprocess_frame_def fst_try_except fst_then_do res_simps)

lemma detect_objects_all:
  "P (Ev_preprocess f) \<Longrightarrow> (\<And>t. P (Ev_run_inference t)) \<Longrightarrow>
   list_all P (snd (detect_objects env f thr))"
  by (simp add: detect_objects_def preprocess_frame_def snd_try_except snd_then_do
        fst_try_except fst_then_do res_simps Let_def split: sum.splits)

lemma fst_speak:
  "fst (speak env text) =
     (if text = [] then Inr ()
      else case engine_say env text of
             Inl e \<Rightarrow> if is_Exception e then Inr () else Inl e
           | Inr u \<Rightarrow>
               (case engine_runAndWait env of
                  Inl e \<Rightarrow> if is_Exception e then Inr () else Inl e
                | Inr u \<Rightarrow> Inr ()))"
  by (simp add: speak_def fst_try_except fst_then_do res_simps split: sum.splits)



section \<open>Properties of the main loop\<close>

lemma sleep_not_in_gateways:
  "Ev_sleep d \<notin> set (snd (capture_audio env))"
  "Ev_sleep d \<notin> set (snd (process_stt env a))"
  "Ev_sleep d \<notin> set (snd (capture_frame env))"
  using capture_audio_all [of "\<lambda>ev. ev \<noteq> Ev_sleep d" env]
    process_stt_all [of "\<lambda>ev. ev \<noteq> Ev_sleep d" a env]
    capture_frame_all [of "\<lambda>ev. ev \<noteq> Ev_sleep d" env]
  by (auto simp: list_all_iff)

text \<open>
  C3 (what the code does). In an iteration whose frame capture returns \<open>None\<close> the
  \<open>continue\<close> statement leaves the body before \<open>time.sleep(0.1)\<close>: the trace of that
  iteration has no delay at all, whereas an iteration that gets a frame and completes does
  end with the delay.
\<close>

theorem C3_missed_frame_skips_sleep:
  "(fst (capture_frame env) = Inr None \<longrightarrow> Ev_sleep d \<notin> set (snd (iteration env)))
   \<and> (fst (capture_frame env) = Inr (Some f) \<longrightarrow> fst (iteration env) = Inr ()
        \<longrightarrow> Ev_sleep (1 / 10) \<in> set (snd (iteration env)))"
proof (intro conjI impI)
  assume "fst (capture_frame env) = Inr None"
  then show "Ev_sleep d \<notin> set (snd (iteration env))"
    by (simp add: iteration_def snd_then_do fst_then_do res_simps sleep_not_in_gateways
          split: sum.splits)
next
  assume "fst (capture_frame env) = Inr (Some f)" and "fst (iteration env) = Inr ()"
  then show "Ev_sleep (1 / 10) \<in> set (snd (iteration env))"
    by (auto simp: iteration_def snd_then_do fst_then_do res_simps split: sum.splits)
qed

theorem C3_witness:
  "iteration (scripted_env\<lparr>cap_read := Inr (False, None)\<rparr>)
     = (Inr (), [Ev_stream_read, Ev_AcceptWaveform [1, 2, 3, 4], Ev_Result, Ev_cap_read])
   \<and> Ev_sleep (1 / 10) \<notin> set (snd (iteration (scripted_env\<lparr>cap_read := Inr (False, None)\<rparr>)))
   \<and> Ev_sleep (1 / 10) \<in> set (snd (iteration scripted_env))"
proof -
  have a: "iteration (scripted_env\<lparr>cap_read := Inr (False, None)\<rparr>)
     = (Inr (), [Ev_stream_read, Ev_AcceptWaveform [1, 2, 3, 4], Ev_Result, Ev_cap_read])"
    by (simp add: iteration_def scripted_env_def capture_audio_def process_stt_def
          capture_frame_def try_except_def then_do_def call_def ret_def get_default_def)
  have b: "fst (capture_frame (scripted_env\<lparr>cap_read := Inr (False, None)\<rparr>)) = Inr None"
    by (simp add: fst_capture_frame)
  have c: "fst (capture_frame scripted_env) = Inr (Some (Frame 0))"
    by (simp add: fst_capture_frame scripted_env_def)
  have "\<exists>ds. fst (detect_objects scripted_env (Frame 0) default_score_threshold) = Inr ds"
    by (rule fst_detect_objects) (simp_all add: scripted_env_def no_interrupt_def)
  then obtain ds where ds: "fst (detect_objects scripted_env (Frame 0) default_score_threshold) = Inr ds"
    by blast
  obtain w where w: "process_inputs main_obstacle_classes ''hello'' ds = Inr w"
    using process_inputs_returns by blast
  have s: "fst (speak scripted_env w) = Inr ()"
    by (simp add: fst_speak scripted_env_def)
  have d: "fst (iteration scripted_env) = Inr ()"
    using c ds w s
    by (simp add: iteration_def fst_then_do fst_capture_audio fst_process_stt res_simps
          get_default_def scripted_env_def)
  show ?thesis
    using a C3_missed_frame_skips_sleep [of "scripted_env\<lparr>cap_read := Inr (False, None)\<rparr>"
        "1 / 10" "Frame 0"] b
      C3_missed_frame_skips_sleep [of scripted_env "1 / 10" "Frame 0"] c d
    by simp
qed

lemma spoken_append: "spoken (tr @ tr') = spoken tr @ spoken tr'"
  by (induction tr rule: spoken.induct) simp_all

lemma spoken_none: "list_all (\<lambda>ev. spoken [ev] = []) tr \<Longrightarrow> spoken tr = []"
proof (induction tr)
  case Nil
  show ?case by simp
next
  case (Cons ev tr)
  then show ?case using spoken_append [of "[ev]" tr] by simp
qed

lemma spoken_gateways:
  "spoken (snd (capture_audio env)) = []"
  "spoken (snd (process_stt env a)) = []"
  "spoken (snd (capture_frame env)) = []"
  "spoken (snd (detect_objects env f thr)) = []"
proof -
  show "spoken (snd (capture_audio env)) = []"
    by (rule spoken_none, rule capture_audio_all) simp
  show "spoken (snd (process_stt env a)) = []"
    by (rule spoken_none, rule process_stt_all) simp_all
  show "spoken (snd (capture_frame env)) = []"
    by (rule spoken_none, rule capture_frame_all) simp
  show "spoken (snd (detect_objects env f thr)) = []"
    by (rule spoken_none, rule detect_objects_all) simp_all
qed

lemma spoken_speak: "spoken (snd (speak env text)) = [text]"
  by (simp add: speak_def snd_then_do snd_try_except fst_then_do res_simps split: sum.splits)

text \<open>
  C9. In an iteration where the recognised text is \<open>hello\<close> and the captured frame yields
  the detections \<open>[{class: 2, score: 0.9}]\<close>, the loop calls \<open>speak\<close> exactly once, with
  the argument \<open>Warning: Obstacle ahead!\<close>, and never with the recognised text.
\<close>

theorem C9_speaks_warning_once:
  assumes "fst (capture_audio env) = Inr audio_data"
    and "fst (process_stt env audio_data) = Inr ''hello''"
    and "fst (capture_frame env) = Inr (Some f)"
    and "fst (detect_objects env f default_score_threshold) = Inr [detection b 2 (9 / 10)]"
  shows "spoken (snd (iteration env)) = [''Warning: Obstacle ahead!'']
         \<and> ''hello'' \<notin> set (spoken (snd (iteration env)))"
proof -
  have w: "process_inputs main_obstacle_classes ''hello'' [detection b 2 (9 / 10)]
             = Inr ''Warning: Obstacle ahead!''"
    by (simp add: process_inputs_def main_obstacle_classes_def DecisionEngine_init_def
          detection_def py_in_def warning_message_def)
  have "spoken (snd (iteration env)) = [''Warning: Obstacle ahead!'']"
    using assms w
    by (simp add: iteration_def snd_then_do fst_then_do res_simps spoken_append
          spoken_gateways spoken_speak split: sum.splits)
  then show ?thesis by simp
qed

theorem C9_witness:
  "spoken (snd (iteration scripted_env)) = [''Warning: Obstacle ahead!'']
   \<and> snd (iteration scripted_env) =
       [Ev_stream_read, Ev_AcceptWaveform [1, 2, 3, 4], Ev_Result, Ev_cap_read,
        Ev_preprocess (Frame 0), Ev_run_inference (Tensor 0),
        Ev_speak ''Warning: Obstacle ahead!'', Ev_say ''Warning: Obstacle ahead!'',
        Ev_runAndWait, Ev_sleep (1 / 10)]"
proof -
  have a: "fst (capture_audio scripted_env) = Inr [1, 2, 3, 4]"
    by (simp add: fst_capture_audio scripted_env_def)
  have t: "fst (process_stt scripted_env [1, 2, 3, 4]) = Inr ''hello''"
    by (simp add: fst_process_stt scripted_env_def get_default_def)
  have c: "fst (capture_frame scripted_env) = Inr (Some (Frame 0))"
    by (simp add: fst_capture_frame scripted_env_def)
  have d: "detect_objects scripted_env (Frame 0) default_score_threshold
             = (Inr [detection (PList [PFloat (1/10), PFloat (1/5), PFloat (1/2), PFloat (3/5)]) 2 (9 / 10)],
                [Ev_preprocess (Frame 0), Ev_run_inference (Tensor 0)])"
    by (simp add: detect_objects_def preprocess_frame_def try_except_def then_do_def call_def
          pure_result_def get_default_def scripted_env_def default_score_threshold_def
          py_index_def py_ge_def py_float_def trunc_def detection_def)
  have s: "snd (iteration scripted_env) =
       [Ev_stream_read, Ev_AcceptWaveform [1, 2, 3, 4], Ev_Result, Ev_cap_read,
        Ev_preprocess (Frame 0), Ev_run_inference (Tensor 0),
        Ev_speak ''Warning: Obstacle ahead!'', Ev_say ''Warning: Obstacle ahead!'',
        Ev_runAndWait, Ev_sleep (1 / 10)]"
    using d
    by (simp add: iteration_def capture_audio_def process_stt_def capture_frame_def speak_def
          try_except_def then_do_def call_def ret_def pure_result_def get_default_def
          process_inputs_def main_obstacle_classes_def DecisionEngine_init_def
          detection_def py_in_def warning_message_def scripted_env_def)
  from C9_speaks_warning_once [OF a t c, of "PList [PFloat (1/10), PFloat (1/5), PFloat (1/2), PFloat (3/5)]"] d s
  show ?thesis by simp
qed

lemma fst_while_true_Cons:
  "fst (while_true (env # envs)) =
     (case fst (iteration env) of Inl e \<Rightarrow> Some e | Inr u \<Rightarrow> fst (while_true envs))"
  by (simp split: prod.splits sum.splits)












lemma interrupt_not_caught:
  "fst m = Inl KeyboardInterrupt \<Longrightarrow> fst (try_except m h) = Inl KeyboardInterrupt"
  by (simp add: fst_try_except)

lemma interrupt_points:
  "stream_read env = Inl KeyboardInterrupt \<Longrightarrow> fst (iteration env) = Inl KeyboardInterrupt"
  "fst (capture_audio env) = Inr a \<Longrightarrow> fst (process_stt env a) = Inr text \<Longrightarrow>
   fst (capture_frame env) = Inr (Some f) \<Longrightarrow> preprocess env f = Inr t \<Longrightarrow>
   run_inference env t = Inl KeyboardInterrupt \<Longrightarrow> fst (iteration env) = Inl KeyboardInterrupt"
  "fst (capture_audio env) = Inr a \<Longrightarrow> fst (process_stt env a) = Inr text \<Longrightarrow>
   fst (capture_frame env) = Inr (Some f) \<Longrightarrow>
   fst (detect_objects env f default_score_threshold) = Inr ds \<Longrightarrow>
   process_inputs main_obstacle_classes text ds = Inr w \<Longrightarrow> w \<noteq> [] \<Longrightarrow>
   engine_say env w = Inl KeyboardInterrupt \<Longrightarrow> fst (iteration env) = Inl KeyboardInterrupt"
  "fst (capture_audio env) = Inr a \<Longrightarrow> fst (process_stt env a) = Inr text \<Longrightarrow>
   fst (capture_frame env) = Inr (Some f) \<Longrightarrow>
   fst (detect_objects env f default_score_threshold) = Inr ds \<Longrightarrow>
   process_inputs main_obstacle_classes text ds = Inr [] \<Longrightarrow>
   sleep env (1 / 10) = Inl KeyboardInterrupt \<Longrightarrow> fst (iteration env) = Inl KeyboardInterrupt"
  by (simp_all add: iteration_def fst_then_do fst_capture_audio fst_speak res_simps
        detect_objects_def preprocess_frame_def fst_try_except)

lemma capture_audio_returns:
  "no_interrupt (stream_read env) \<Longrightarrow> \<exists>a. fst (capture_audio env) = Inr a"
  by (cases "stream_read env") (simp_all add: fst_capture_audio no_interrupt_def)

lemma process_stt_returns:
  "no_interrupt (AcceptWaveform env a) \<Longrightarrow> no_interrupt (Result_json env) \<Longrightarrow>
   \<exists>s. fst (process_stt env a) = Inr s"
  by (cases "AcceptWaveform env a"; cases "Result_json env")
     (simp_all add: fst_process_stt no_interrupt_def)

lemma capture_frame_returns:
  "camera_contract (cap_read env) \<Longrightarrow> \<exists>frame. fst (capture_frame env) = Inr frame"
  by (cases "cap_read env")
     (auto simp: fst_capture_frame camera_contract_def split: prod.splits if_splits)

lemma speak_returns:
  "no_interrupt (engine_say env w) \<Longrightarrow> no_interrupt (engine_runAndWait env) \<Longrightarrow>
   fst (speak env w) = Inr ()"
  by (cases "engine_say env w"; cases "engine_runAndWait env")
     (simp_all add: fst_speak no_interrupt_def)

lemma iteration_completes:
  assumes "recoverable_only env"
  shows "fst (iteration env) = Inr ()"
proof -
  have r1: "no_interrupt (stream_read env)"
    and r2: "\<And>d. no_interrupt (AcceptWaveform env d)"
    and r3: "no_interrupt (Result_json env)"
    and r4: "camera_contract (cap_read env)"
    and r5: "\<And>f. no_interrupt (preprocess env f)"
    and r6: "\<And>t. no_interrupt (run_inference env t)"
    and r7: "\<And>t. no_interrupt (engine_say env t)"
    and r8: "no_interrupt (engine_runAndWait env)"
    and r9: "\<And>d. sleep env d = Inr ()"
    using assms by (simp_all add: recoverable_only_def)
  obtain a where a: "fst (capture_audio env) = Inr a"
    using capture_audio_returns [OF r1] by blast
  obtain rtext where t: "fst (process_stt env a) = Inr rtext"
    using process_stt_returns [OF r2 r3] by blast
  obtain frame where f: "fst (capture_frame env) = Inr frame"
    using capture_frame_returns [OF r4] by blast
  show ?thesis
  proof (cases frame)
    case None
    with a t f show ?thesis
      by (simp add: iteration_def fst_then_do res_simps)
  next
    case (Some fr)
    obtain ds where d: "fst (detect_objects env fr default_score_threshold) = Inr ds"
      using fst_detect_objects [OF r5 r6] by blast
    obtain w where w: "process_inputs main_obstacle_classes rtext ds = Inr w"
      using process_inputs_returns by blast
    have s: "fst (speak env w) = Inr ()"
      using r7 r8 by (rule speak_returns)
    from Some a t f d w s r9 show ?thesis
      by (simp add: iteration_def fst_then_do res_simps)
  qed
qed

lemma loop_keeps_running:
  "list_all recoverable_only envs \<Longrightarrow> fst (while_true envs) = None"
proof (induction envs)
  case Nil
  show ?case by simp
next
  case (Cons env envs)
  then show ?case
    unfolding fst_while_true_Cons by (simp add: iteration_completes)
qed

text \<open>
  C5 (as stated). No per-iteration gateway operation raises to its caller, and no fault of
  an iteration ends the loop. This fails for \<open>capture_frame\<close>, the one gateway operation
  without a handler: when the camera read itself raises an \<open>Exception\<close>, the exception
  leaves \<open>capture_frame\<close> and the iteration, the loop ends, and \<open>main\<close> returns after
  the shutdown path.
\<close>

theorem C5_counterexample:
  "is_Exception OSError
   \<and> fst (capture_frame (scripted_env\<lparr>cap_read := Inl OSError\<rparr>)) = Inl OSError
   \<and> fst (iteration (scripted_env\<lparr>cap_read := Inl OSError\<rparr>)) = Inl OSError
   \<and> fst (while_true [scripted_env\<lparr>cap_read := Inl OSError\<rparr>, scripted_env]) = Some OSError
   \<and> fst (main [scripted_env\<lparr>cap_read := Inl OSError\<rparr>, scripted_env] scripted_close) = Returned"
proof -
  have c: "fst (capture_frame (scripted_env\<lparr>cap_read := Inl OSError\<rparr>)) = Inl OSError"
    by (simp add: fst_capture_frame)
  have i: "iteration (scripted_env\<lparr>cap_read := Inl OSError\<rparr>) =
             (Inl OSError, [Ev_stream_read, Ev_AcceptWaveform [1, 2, 3, 4], Ev_Result, Ev_cap_read])"
    by (simp add: iteration_def capture_audio_def process_stt_def capture_frame_def
          try_except_def then_do_def call_def ret_def get_default_def scripted_env_def)
  have w: "while_true [scripted_env\<lparr>cap_read := Inl OSError\<rparr>, scripted_env] =
             (Some OSError, [Ev_stream_read, Ev_AcceptWaveform [1, 2, 3, 4], Ev_Result, Ev_cap_read])"
    by (simp add: i)
  have f: "fst (main_finally scripted_close) = Inr ()"
    by (simp add: main_finally_def audio_close_def vision_close_def fst_then_do fst_try_except
          res_simps scripted_close_def)
  have m: "fst (main [scripted_env\<lparr>cap_read := Inl OSError\<rparr>, scripted_env] scripted_close) = Returned"
    using f by (cases "main_finally scripted_close") (simp add: main_def w del: while_true.simps)
  show ?thesis
    using c i w m by simp
qed

text \<open>
  C5 (amended). When its collaborator raises an \<open>Exception\<close>, \<open>capture_audio\<close> yields
  empty bytes, \<open>process_stt\<close> the empty string, \<open>detect_objects\<close> the empty detection list
  and \<open>speak\<close> returns; when the camera read reports failure through its success flag,
  \<open>capture_frame\<close> yields \<open>None\<close>. An iteration in which no call is interrupted, the camera
  read returns its pair (with a frame when it says success) and the delay returns always
  completes, and a run of such iterations never leaves the loop.
\<close>

theorem C5_recoverable_failures:
  assumes "is_Exception e"
  shows "(stream_read env = Inl e \<longrightarrow> fst (capture_audio env) = Inr [])
       \<and> (AcceptWaveform env a = Inl e \<longrightarrow> fst (process_stt env a) = Inr '''')
       \<and> (AcceptWaveform env a = Inr True \<longrightarrow> Result_json env = Inl e
            \<longrightarrow> fst (process_stt env a) = Inr '''')
       \<and> (cap_read env = Inr (False, fr) \<longrightarrow> fst (capture_frame env) = Inr None)
       \<and> (preprocess env f = Inl e \<longrightarrow> fst (detect_objects env f thr) = Inr [])
       \<and> (preprocess env f = Inr t \<longrightarrow> run_inference env t = Inl e
            \<longrightarrow> fst (detect_objects env f thr) = Inr [])
       \<and> (engine_say env text = Inl e \<longrightarrow> fst (speak env text) = Inr ())
       \<and> (engine_say env text = Inr () \<longrightarrow> engine_runAndWait env = Inl e
            \<longrightarrow> fst (speak env text) = Inr ())
       \<and> (recoverable_only env \<longrightarrow> fst (iteration env) = Inr ())
       \<and> (list_all recoverable_only envs \<longrightarrow> fst (while_true envs) = None)"
proof (intro conjI impI)
  show "stream_read env = Inl e \<Longrightarrow> fst (capture_audio env) = Inr []"
    using assms by (simp add: fst_capture_audio)
  show "AcceptWaveform env a = Inl e \<Longrightarrow> fst (process_stt env a) = Inr ''''"
    using assms by (simp add: fst_process_stt)
  show "AcceptWaveform env a = Inr True \<Longrightarrow> Result_json env = Inl e \<Longrightarrow>
        fst (process_stt env a) = Inr ''''"
    using assms by (simp add: fst_process_stt)
  show "cap_read env = Inr (False, fr) \<Longrightarrow> fst (capture_frame env) = Inr None"
    by (simp add: fst_capture_frame)
  show "preprocess env f = Inl e \<Longrightarrow> fst (detect_objects env f thr) = Inr []"
    using assms detect_objects_failure [of e env f t thr] by simp
  show "preprocess env f = Inr t \<Longrightarrow> run_inference env t = Inl e \<Longrightarrow>
        fst (detect_objects env f thr) = Inr []"
    using assms detect_objects_failure [of e env f t thr] by simp
  show "engine_say env text = Inl e \<Longrightarrow> fst (speak env text) = Inr ()"
    using assms by (simp add: fst_speak)
  show "engine_say env text = Inr () \<Longrightarrow> engine_runAndWait env = Inl e \<Longrightarrow>
        fst (speak env text) = Inr ()"
    using assms by (simp add: fst_speak)
  show "recoverable_only env \<Longrightarrow> fst (iteration env) = Inr ()"
    by (rule iteration_completes)
  show "list_all recoverable_only envs \<Longrightarrow> fst (while_true envs) = None"
    by (rule loop_keeps_running)
qed

lemma failing_env_recoverable:
  "recoverable_only (scripted_env\<lparr>stream_read := Inl OSError, cap_read := Inr (False, None)\<rparr>)"
  "recoverable_only (scripted_env\<lparr>run_inference := (\<lambda>t. Inl RuntimeError),
                                   engine_say := (\<lambda>t. Inl RuntimeError)\<rparr>)"
  by (simp_all add: recoverable_only_def no_interrupt_def camera_contract_def scripted_env_def)

theorem C5_witness:
  "fst (capture_audio (scripted_env\<lparr>stream_read := Inl OSError, cap_read := Inr (False, None)\<rparr>))
     = Inr []
   \<and> fst (capture_frame (scripted_env\<lparr>stream_read := Inl OSError, cap_read := Inr (False, None)\<rparr>))
     = Inr None
   \<and> fst (iteration (scripted_env\<lparr>stream_read := Inl OSError, cap_read := Inr (False, None)\<rparr>))
     = Inr ()
   \<and> fst (while_true
       [scripted_env\<lparr>stream_read := Inl OSError, cap_read := Inr (False, None)\<rparr>,
        scripted_env\<lparr>run_inference := (\<lambda>t. Inl RuntimeError),
                     engine_say := (\<lambda>t. Inl RuntimeError)\<rparr>]) = None"
  using C5_recoverable_failures [of OSError
      "scripted_env\<lparr>stream_read := Inl OSError, cap_read := Inr (False, None)\<rparr>"
      "[]" None "Frame 0" "1 / 2" "Tensor 0" "''''"
      "[scripted_env\<lparr>stream_read := Inl OSError, cap_read := Inr (False, None)\<rparr>,
        scripted_env\<lparr>run_inference := (\<lambda>t. Inl RuntimeError),
                     engine_say := (\<lambda>t. Inl RuntimeError)\<rparr>]"]
    failing_env_recoverable
  by simp

text \<open>
  Outside the contract of the camera read, \<open>capture_frame\<close> has no handler: an exception
  raised by the read itself leaves the gateway, and the loop with it.
\<close>

lemma capture_frame_propagates:
  "cap_read env = Inl e \<Longrightarrow> fst (capture_frame env) = Inl e"
  by (simp add: fst_capture_frame)

end
